theory Spec2Isabelle
  imports Complex_Main
begin

section \<open>Numbers and vectors\<close>

text \<open>
  The program computes in C++ \<open>float\<close>. Here every \<open>float\<close> is a real number and
  every operation is the exact one: rounding, overflow, infinities and NaN are not part of
  this model. The results below are therefore statements about the geometry the code
  implements, in exact arithmetic.

  \<open>vec2\<close> is GLM's two-component vector with fields \<open>x\<close> and \<open>y\<close>
  (selectors \<open>vx\<close>, \<open>vy\<close> here).
\<close>

datatype vec2 = vec2 (vx: real) (vy: real)

text \<open>
  Modelled from the spec: the GLM library (\<open>vec2\<close>, its operators, \<open>dot\<close>,
  \<open>inversesqrt\<close>, \<open>normalize\<close>) is not among the source files. \<open>vadd\<close> is GLM's
  \<open>operator+\<close> on two vectors and \<open>vscale\<close> its \<open>operator*\<close> of a vector and a scalar,
  as in the specification's \<open>O + t d\<close>.
\<close>

definition vadd :: "vec2 \<Rightarrow> vec2 \<Rightarrow> vec2" where
  "vadd u v = vec2 (vx u + vx v) (vy u + vy v)"

definition vscale :: "vec2 \<Rightarrow> real \<Rightarrow> vec2" where
  "vscale v s = vec2 (vx v * s) (vy v * s)"

text \<open>
  Modelled from the spec: \<open>normalize(D)\<close> is GLM's \<open>normalize\<close> (here \<open>normalize_vec2\<close>),
  which the library computes as \<open>v * inversesqrt(dot(v, v))\<close>. On the zero vector the
  library divides by zero (the components become NaN), which a real number cannot express:
  HOL's \<open>1 / 0\<close> is \<open>0\<close>. The theorems that depend on the normalised direction assume a
  non-zero direction, as the input contract of the solver does.
\<close>

definition dot :: "vec2 \<Rightarrow> vec2 \<Rightarrow> real" where
  "dot u v = vx u * vx v + vy u * vy v"

definition inversesqrt :: "real \<Rightarrow> real" where
  "inversesqrt x = 1 / sqrt x"

definition normalize_vec2 :: "vec2 \<Rightarrow> vec2" where
  "normalize_vec2 v = vscale v (inversesqrt (dot v v))"

text \<open>\<open>const float EPSILON = 0.001f\<close>, \<open>is_zero\<close> and \<open>square\<close> (both files).\<close>

definition EPSILON :: real where
  "EPSILON = 0.001"

definition is_zero :: "real \<Rightarrow> bool" where
  "is_zero a = (\<bar>a\<bar> < EPSILON)"

definition square :: "real \<Rightarrow> real" where
  "square a = a * a"

section \<open>The pure solver (piston.cpp)\<close>

record crankshaft =
  crank_radius :: real
  angle :: real

record cylinder =
  origin :: vec2
  direction :: vec2

record engine =
  crank :: crankshaft
  cylinder :: cylinder
  connecting_rod_length :: real

text \<open>\<open>struct piston_position\<close>: the field \<open>value\<close> is called \<open>val\<close> here.\<close>

record piston_position =
  is_valid :: bool
  val :: vec2

definition invalid :: piston_position where
  "invalid = \<lparr>is_valid = False, val = vec2 0 0\<rparr>"

definition valid :: "vec2 \<Rightarrow> piston_position" where
  "valid position = \<lparr>is_valid = True, val = position\<rparr>"

definition calculate :: "engine \<Rightarrow> piston_position" where
  "calculate e =
    (let cylinder_direction = normalize_vec2 (direction (cylinder e));
         dx = vx cylinder_direction;
         dy = vy cylinder_direction;
         lx = vx (origin (cylinder e));
         ly = vy (origin (cylinder e));
         r = crank_radius (crank e);
         rcr = connecting_rod_length e;
         alpha = angle (crank e);
         a = square dx + square dy;
         b = 2 * (lx * dx + ly * dy - r * dx * cos alpha - r * dy * sin alpha);
         c = square lx + square ly - 2 * r * lx * cos alpha - 2 * r * ly * sin alpha
             - square rcr + square r;
         discriminant = square b - 4 * a * c;
         divisor = 2 * a
     in if is_zero divisor then invalid
        else if discriminant < 0 then invalid
        else let t = (- b + sqrt discriminant) / divisor
             in valid (vadd (origin (cylinder e)) (vscale cylinder_direction t)))"

section \<open>The stateful variant (the earlier revision)\<close>

text \<open>
  The earlier revision keeps the crankpin position and the piston inside \<open>struct engine\<close>
  and updates them in place. Its structs carry the suffix \<open>_st\<close> where the name is already
  taken by the pure version; \<open>struct cylinder\<close> is the same in both.
\<close>

record crankshaft_st =
  crank_radius_st :: real
  crankpin_position :: vec2
  angle_st :: real

record piston =
  position :: vec2
  exists :: bool

record engine_st =
  crankshaft :: crankshaft_st
  cylinder_st :: cylinder
  piston :: piston
  connecting_rod_length_st :: real

definition calculate_positions :: "engine_st \<Rightarrow> engine_st" where
  "calculate_positions e0 =
    (let e = e0\<lparr>crankshaft := (crankshaft e0)\<lparr>crankpin_position :=
                 vec2 (cos (angle_st (crankshaft e0)) * crank_radius_st (crankshaft e0))
                      (sin (angle_st (crankshaft e0)) * crank_radius_st (crankshaft e0))\<rparr>\<rparr>;
         cylinder_direction = normalize_vec2 (direction (cylinder_st e));
         dx = vx cylinder_direction;
         dy = vy cylinder_direction;
         lx = vx (origin (cylinder_st e));
         ly = vy (origin (cylinder_st e));
         r = crank_radius_st (crankshaft e);
         rcr = connecting_rod_length_st e;
         alpha = angle_st (crankshaft e);
         rcos = r * cos alpha;
         rsin = r * sin alpha;
         a = square dx + square dy;
         b = 2 * (lx * dx + ly * dy - dx * rcos - dy * rsin);
         c = square lx + square ly - 2 * lx * rcos - 2 * ly * rsin - square rcr + square r;
         discriminant = square b - 4 * a * c;
         divisor = 2 * a
     in if is_zero divisor then e\<lparr>piston := (piston e)\<lparr>exists := False\<rparr>\<rparr>
        else if discriminant < 0 then e\<lparr>piston := (piston e)\<lparr>exists := False\<rparr>\<rparr>
        else let t = (- b + sqrt discriminant) / divisor
             in e\<lparr>piston := (piston e)\<lparr>
                    position := vadd (origin (cylinder_st e)) (vscale cylinder_direction t),
                    exists := True\<rparr>\<rparr>)"

section \<open>The quantities of the specification\<close>

text \<open>
  The specification (section 4.1) names the normalised direction \<open>d\<close>, the crankpin
  \<open>(r cos \<alpha>, r sin \<alpha>)\<close>, the coefficients \<open>a\<close>, \<open>b\<close>, \<open>c\<close> of the quadratic in the ray
  parameter \<open>t\<close>, its discriminant and the root \<open>(-b + \<surd>discriminant) / (2a)\<close>. The
  definitions of this section follow the specification's words; the theorems compare
  \<open>calculate\<close> with them.
\<close>

definition spec_d :: "engine \<Rightarrow> vec2" where
  "spec_d e = normalize_vec2 (direction (cylinder e))"


definition spec_a :: "engine \<Rightarrow> real" where
  "spec_a e = (vx (spec_d e))\<^sup>2 + (vy (spec_d e))\<^sup>2"

definition spec_b :: "engine \<Rightarrow> real" where
  "spec_b e = 2 * (vx (origin (cylinder e)) * vx (spec_d e)
                 + vy (origin (cylinder e)) * vy (spec_d e)
                 - crank_radius (crank e) * vx (spec_d e) * cos (angle (crank e))
                 - crank_radius (crank e) * vy (spec_d e) * sin (angle (crank e)))"

definition spec_c :: "engine \<Rightarrow> real" where
  "spec_c e = (vx (origin (cylinder e)))\<^sup>2 + (vy (origin (cylinder e)))\<^sup>2
              - 2 * crank_radius (crank e) * vx (origin (cylinder e)) * cos (angle (crank e))
              - 2 * crank_radius (crank e) * vy (origin (cylinder e)) * sin (angle (crank e))
              - (connecting_rod_length e)\<^sup>2 + (crank_radius (crank e))\<^sup>2"

definition spec_discriminant :: "engine \<Rightarrow> real" where
  "spec_discriminant e = (spec_b e)\<^sup>2 - 4 * spec_a e * spec_c e"



section \<open>Concrete configurations\<close>

text \<open>
  The solver's input is the tuple \<open>(r, L, O, D, \<alpha>)\<close> (specification, section 6); in the
  code it arrives as the fields of \<open>struct engine\<close>. \<open>solver_input\<close> writes the struct for
  a given tuple, \<open>engine_state\<close> the struct of the stateful variant together with the
  crankpin and the piston it currently holds.
\<close>

abbreviation solver_input :: "real \<Rightarrow> real \<Rightarrow> vec2 \<Rightarrow> vec2 \<Rightarrow> real \<Rightarrow> engine" where
  "solver_input r L orig dir al \<equiv>
     \<lparr>crank = \<lparr>crank_radius = r, angle = al\<rparr>,
      cylinder = \<lparr>origin = orig, direction = dir\<rparr>,
      connecting_rod_length = L\<rparr>"

abbreviation engine_state ::
  "real \<Rightarrow> real \<Rightarrow> vec2 \<Rightarrow> vec2 \<Rightarrow> real \<Rightarrow> vec2 \<Rightarrow> piston \<Rightarrow> engine_st" where
  "engine_state r L orig dir al pin p \<equiv>
     \<lparr>crankshaft = \<lparr>crank_radius_st = r, crankpin_position = pin, angle_st = al\<rparr>,
      cylinder_st = \<lparr>origin = orig, direction = dir\<rparr>,
      piston = p,
      connecting_rod_length_st = L\<rparr>"

section \<open>Arithmetic of the quadratic\<close>





section \<open>Normalised directions\<close>




lemma normalize_0_1: "normalize_vec2 (vec2 0 1) = vec2 0 1"
  by (simp add: normalize_vec2_def vscale_def inversesqrt_def dot_def)


section \<open>The solver in the specification's quantities\<close>





lemma piston_position_simps:
  "is_valid (valid p)" "val (valid p) = p" "\<not> is_valid invalid" "valid p \<noteq> invalid"
  by (simp_all add: valid_def invalid_def)


text \<open>The quantities of the specification on a vertical axis through \<open>(ox, 0)\<close> at angle 0.\<close>

lemma spec_vertical:
  "spec_d (solver_input r L (vec2 ox 0) (vec2 0 1) 0) = vec2 0 1"
  "spec_a (solver_input r L (vec2 ox 0) (vec2 0 1) 0) = 1"
  "spec_b (solver_input r L (vec2 ox 0) (vec2 0 1) 0) = 0"
  "spec_c (solver_input r L (vec2 ox 0) (vec2 0 1) 0) = ox\<^sup>2 - 2 * r * ox - L\<^sup>2 + r\<^sup>2"
  by (simp_all add: spec_a_def spec_b_def spec_c_def spec_d_def normalize_0_1)

section \<open>The position lies on the axis, one rod length from the crankpin\<close>



section \<open>Coefficients and choice of the root\<close>



section \<open>When the solver rejects\<close>



section \<open>The stateful variant computes the same result\<close>

text \<open>
  The stateful variant multiplies \<open>r\<close> with \<open>cos \<alpha>\<close> and \<open>sin \<alpha>\<close> first (\<open>rcos\<close>, \<open>rsin\<close>);
  the pure solver multiplies from the left. In exact arithmetic the products are equal.
\<close>

lemma stateful_b:
  fixes lx ly dx dy r co si :: real
  shows "lx * dx + ly * dy - dx * (r * co) - dy * (r * si)
         = lx * dx + ly * dy - r * dx * co - r * dy * si"
  by (simp add: mult_ac)

lemma stateful_c:
  fixes lx ly r co si q :: real
  shows "square lx + square ly - 2 * lx * (r * co) - 2 * ly * (r * si) - q + square r
         = square lx + square ly - 2 * r * lx * co - 2 * r * ly * si - q + square r"
  by (simp add: mult_ac)

lemma calculate_positions_piston:
  "piston (calculate_positions s) =
    (let d = normalize_vec2 (direction (cylinder_st s));
         r = crank_radius_st (crankshaft s);
         al = angle_st (crankshaft s);
         lx = vx (origin (cylinder_st s));
         ly = vy (origin (cylinder_st s));
         a = square (vx d) + square (vy d);
         b = 2 * (lx * vx d + ly * vy d - r * vx d * cos al - r * vy d * sin al);
         c = square lx + square ly - 2 * r * lx * cos al - 2 * r * ly * sin al
             - square (connecting_rod_length_st s) + square r
     in if is_zero (2 * a) \<or> square b - 4 * a * c < 0 then (piston s)\<lparr>exists := False\<rparr>
        else (piston s)\<lparr>
               position := vadd (origin (cylinder_st s))
                             (vscale d ((- b + sqrt (square b - 4 * a * c)) / (2 * a))),
               exists := True\<rparr>)"
  unfolding calculate_positions_def Let_def stateful_b stateful_c by simp




section \<open>Only the direction of \<open>D\<close> matters\<close>



section \<open>The result depends on the parameters only\<close>



section \<open>A crank of radius zero\<close>




section \<open>Two scenarios of the specification\<close>




text \<open>
  Claim C9. With \<open>r = 50\<close>, \<open>L = 10\<close>, \<open>O = (0, 0)\<close>, \<open>D = (0, 1)\<close>, \<open>\<alpha> = 0\<close> the result is
  invalid: the discriminant is \<open>-9600\<close>, the crankpin being 50 away from the axis and the
  rod 10 long.
\<close>

theorem scenario_short_rod_invalid:
  "calculate (solver_input 50 10 (vec2 0 0) (vec2 0 1) 0) = invalid
   \<and> \<not> is_valid (calculate (solver_input 50 10 (vec2 0 0) (vec2 0 1) 0))
   \<and> spec_discriminant (solver_input 50 10 (vec2 0 0) (vec2 0 1) 0) = - 9600"
proof -
  have "calculate (solver_input 50 10 (vec2 0 0) (vec2 0 1) 0) = invalid"
    by (simp add: calculate_def Let_def normalize_0_1 square_def is_zero_def EPSILON_def)
  moreover have "spec_discriminant (solver_input 50 10 (vec2 0 0) (vec2 0 1) 0) = - 9600"
    by (simp add: spec_discriminant_def spec_vertical)
  ultimately show ?thesis by (simp add: piston_position_simps)
qed

section \<open>A rejection keeps the stored position\<close>

text \<open>
  Claim C10. When \<open>engine::calculate_positions\<close> rejects (\<open>piston.exists\<close> is false after the
  call), the piston is the one from before the call with \<open>exists\<close> set to false: its
  \<open>position\<close> is the value it held before, since only the valid path assigns it.
\<close>

theorem calculate_positions_rejection_keeps_position:
  assumes "\<not> exists (piston (calculate_positions s))"
  shows "piston (calculate_positions s) = (piston s)\<lparr>exists := False\<rparr>"
proof -
  have "piston (calculate_positions s) = (piston s)\<lparr>exists := False\<rparr>
        \<or> exists (piston (calculate_positions s))"
    unfolding calculate_positions_piston Let_def by simp
  with assms show ?thesis by blast
qed

text \<open>
  An engine that holds the piston \<open>(7, 9)\<close> from an earlier frame and now has \<open>r = 50\<close>,
  \<open>L = 10\<close>, \<open>O = (0, 0)\<close>, \<open>D = (0, 1)\<close>, \<open>\<alpha> = 0\<close>: the call rejects, and the piston is still
  at \<open>(7, 9)\<close>.
\<close>

theorem calculate_positions_rejection_keeps_position_witness:
  "\<not> exists (piston (calculate_positions (engine_state 50 10 (vec2 0 0) (vec2 0 1) 0 (vec2 0 0)
       \<lparr>position = vec2 7 9, exists = True\<rparr>)))
   \<and> piston (calculate_positions (engine_state 50 10 (vec2 0 0) (vec2 0 1) 0 (vec2 0 0)
       \<lparr>position = vec2 7 9, exists = True\<rparr>))
     = \<lparr>position = vec2 7 9, exists = False\<rparr>"
proof -
  let ?s = "engine_state 50 10 (vec2 0 0) (vec2 0 1) 0 (vec2 0 0)
              \<lparr>position = vec2 7 9, exists = True\<rparr>"
  have h: "\<not> exists (piston (calculate_positions ?s))"
    by (simp add: calculate_positions_def Let_def normalize_0_1 square_def is_zero_def
        EPSILON_def)
  from calculate_positions_rejection_keeps_position [OF h]
  have "piston (calculate_positions ?s) = \<lparr>position = vec2 7 9, exists = False\<rparr>" by simp
  with h show ?thesis by blast
qed

end
